theory Spec2Isabelle
  imports Main "HOL-Library.Word"
begin

section \<open>The user store of quickshare (src/db/rdb/sqlite/users.go)\<close>

text \<open>
  The store keeps one table \<open>t_user\<close> with the columns
  \<open>id, name, pwd, role, used_space, quota, preference\<close>. The Go code reads and writes it
  through SQL statements; the structured fields \<open>Quota\<close> and \<open>Preferences\<close> of a user are
  kept in the last two columns as text produced by \<open>json.Marshal\<close> and read back by
  \<open>json.Unmarshal\<close>.

  The embedding is sequential: every operation takes the table and returns its result
  together with the table after the call. The reader/writer lock of the store is not part
  of the model. The relational engine is taken to execute each statement faithfully and
  never to fail for reasons of its own (no lost connection, no cancelled context). What
  \<open>database/sql\<close> does with the arguments of a statement before it reaches the engine is
  part of the model.
\<close>

subsection \<open>Data\<close>

type_synonym int64 = "64 word"
type_synonym uint64 = "64 word"

text \<open>
  The errors of package \<open>db\<close> that this file returns, \<open>sql.ErrNoRows\<close>, and the errors of
  the collaborators: a failed JSON conversion, a violated uniqueness constraint of the
  table, and the error of \<open>database/sql\<close> for an argument it cannot convert.
\<close>

datatype error =
    ErrUserNotFound
  | ErrReachedLimit
  | ErrNegtiveUsedSpace
  | ErrInvalidUser
  | ErrNoRows
  | ErrJSON
  | ErrConstraint
  | ErrConvertArg

text \<open>
  Modelled from the spec: the declaration of \<open>db.Quota\<close> is not part of this file. The
  spec gives it the one field \<open>SpaceLimit\<close>, an integer bound on \<open>UsedSpace\<close>; the code
  converts it with \<open>int64(...)\<close> before comparing, so it is held here as the 64-bit value
  that conversion yields.
\<close>

record Quota =
  SpaceLimit :: int64

text \<open>
  \<open>db.User\<close>, with the fields this file reads and writes. The declaration of
  \<open>db.Preferences\<close> is not part of this file either and none of its fields is used here,
  so the type of preferences is a parameter \<open>'p\<close>.
\<close>

record 'p User =
  ID :: uint64
  Name :: string
  Pwd :: string
  Role :: string
  UsedSpace :: int64
  Quota :: Quota
  Preferences :: 'p

text \<open>A row of \<open>t_user\<close>; the table is the list of its rows in insertion order.\<close>

record row =
  id_col :: uint64
  name_col :: string
  pwd_col :: string
  role_col :: string
  used_space_col :: int64
  quota_col :: string
  preference_col :: string

type_synonym t_user = "row list"

text \<open>
  \<open>json.Marshal\<close> and \<open>json.Unmarshal\<close> at the two types they are used at.
  \<open>Unmarshal\<close> always starts from the zero value of a fresh \<open>db.User\<close>, so its result is
  a function of the text alone. Both can return an error.
\<close>

record 'p codec =
  marshal_quota :: "Quota \<Rightarrow> error + string"
  unmarshal_quota :: "string \<Rightarrow> error + Quota"
  marshal_preferences :: "'p \<Rightarrow> error + string"
  unmarshal_preferences :: "string \<Rightarrow> error + 'p"

subsection \<open>The statements sent to the storage engine\<close>

text \<open>
  \<open>database/sql\<close> converts the arguments of a statement before it runs it. Its default
  converter takes a \<open>uint64\<close> to \<open>int64\<close> and refuses one with the high bit set
  (\<open>uint64 values with high bit set are not supported\<close>); the statement is then not run,
  \<open>ExecContext\<close> returns the error and \<open>QueryRowContext\<close> hands it to \<open>Scan\<close>. The only
  \<open>uint64\<close> argument of the statements of this file is the id.
\<close>

definition high_bit_set :: "uint64 \<Rightarrow> bool" where
  "high_bit_set i = (2 ^ 63 \<le> unat i)"

text \<open>\<open>select ... from t_user where id=?\<close> through \<open>QueryRowContext\<close> and \<open>Scan\<close>.\<close>

definition select_by_id :: "t_user \<Rightarrow> uint64 \<Rightarrow> error + row" where
  "select_by_id tbl i =
     (if high_bit_set i then Inl ErrConvertArg
      else (case find (\<lambda>r. id_col r = i) tbl of None \<Rightarrow> Inl ErrNoRows | Some r \<Rightarrow> Inr r))"

text \<open>\<open>select ... from t_user where name=?\<close>.\<close>

definition select_by_name :: "t_user \<Rightarrow> string \<Rightarrow> error + row" where
  "select_by_name tbl n =
     (case find (\<lambda>r. name_col r = n) tbl of None \<Rightarrow> Inl ErrNoRows | Some r \<Rightarrow> Inr r)"

text \<open>
  \<open>update t_user set ... where id=?\<close>: every row with that id is rewritten by \<open>f\<close>; a
  statement that matches no row is not an error.
\<close>

definition update_where_id :: "(row \<Rightarrow> row) \<Rightarrow> uint64 \<Rightarrow> t_user \<Rightarrow> error option \<times> t_user" where
  "update_where_id f i tbl =
     (if high_bit_set i then (Some ErrConvertArg, tbl)
      else (None, map (\<lambda>r. if id_col r = i then f r else r) tbl))"

text \<open>\<open>delete from t_user where id=?\<close>.\<close>

definition delete_where_id :: "uint64 \<Rightarrow> t_user \<Rightarrow> error option \<times> t_user" where
  "delete_where_id i tbl =
     (if high_bit_set i then (Some ErrConvertArg, tbl)
      else (None, filter (\<lambda>r. id_col r \<noteq> i) tbl))"

text \<open>
  \<open>insert into t_user (...) values (...)\<close>. The id is converted first, as above.
  Modelled from the spec: the schema of \<open>t_user\<close> is created outside this file. The spec
  makes \<open>ID\<close> and \<open>Name\<close> each globally unique and lets an insert that collides on either
  fail; the table is then unchanged.
\<close>

definition insert_row :: "row \<Rightarrow> t_user \<Rightarrow> error option \<times> t_user" where
  "insert_row r tbl =
     (if high_bit_set (id_col r) then (Some ErrConvertArg, tbl)
      else if id_col r \<in> set (map id_col tbl) \<or> name_col r \<in> set (map name_col tbl)
      then (Some ErrConstraint, tbl)
      else (None, tbl @ [r]))"

subsection \<open>The operations of the store\<close>

text \<open>
  \<open>setUser\<close>. \<open>db.CheckUser\<close> is declared outside this file and is taken as the
  parameter \<open>CheckUser\<close>; its second argument is the flag \<open>ignorePwd\<close>.
\<close>

definition setUser ::
  "('p User \<Rightarrow> bool \<Rightarrow> error option) \<Rightarrow> 'p codec \<Rightarrow> 'p User \<Rightarrow> t_user \<Rightarrow> error option \<times> t_user" where
  "setUser CheckUser cdc user tbl =
     (case CheckUser user False of
        Some err \<Rightarrow> (Some err, tbl)
      | None \<Rightarrow>
         (case marshal_quota cdc (Quota user) of
            Inl err \<Rightarrow> (Some err, tbl)
          | Inr quotaStr \<Rightarrow>
             (case marshal_preferences cdc (Preferences user) of
                Inl err \<Rightarrow> (Some err, tbl)
              | Inr preferencesStr \<Rightarrow>
                 update_where_id
                   (\<lambda>r. r\<lparr>name_col := Name user, pwd_col := Pwd user, role_col := Role user,
                          used_space_col := UsedSpace user, quota_col := quotaStr,
                          preference_col := preferencesStr\<rparr>)
                   (ID user) tbl)))"

text \<open>The part of \<open>getUser\<close> and \<open>GetUserByName\<close> after the row has been scanned.\<close>

definition decode_row :: "'p codec \<Rightarrow> row \<Rightarrow> error + 'p User" where
  "decode_row cdc r =
     (case unmarshal_quota cdc (quota_col r) of
        Inl err \<Rightarrow> Inl err
      | Inr q \<Rightarrow>
         (case unmarshal_preferences cdc (preference_col r) of
            Inl err \<Rightarrow> Inl err
          | Inr p \<Rightarrow>
             Inr \<lparr>ID = id_col r, Name = name_col r, Pwd = pwd_col r, Role = role_col r,
                  UsedSpace = used_space_col r, Quota = q, Preferences = p\<rparr>))"

definition getUser :: "'p codec \<Rightarrow> t_user \<Rightarrow> uint64 \<Rightarrow> error + 'p User" where
  "getUser cdc tbl i =
     (case select_by_id tbl i of
        Inl err \<Rightarrow> (if err = ErrNoRows then Inl ErrUserNotFound else Inl err)
      | Inr r \<Rightarrow> decode_row cdc r)"

definition AddUser :: "'p codec \<Rightarrow> 'p User \<Rightarrow> t_user \<Rightarrow> error option \<times> t_user" where
  "AddUser cdc user tbl =
     (case marshal_quota cdc (Quota user) of
        Inl err \<Rightarrow> (Some err, tbl)
      | Inr quotaStr \<Rightarrow>
         (case marshal_preferences cdc (Preferences user) of
            Inl err \<Rightarrow> (Some err, tbl)
          | Inr preferenceStr \<Rightarrow>
             insert_row
               \<lparr>id_col = ID user, name_col = Name user, pwd_col = Pwd user,
                role_col = Role user, used_space_col = UsedSpace user,
                quota_col = quotaStr, preference_col = preferenceStr\<rparr>
               tbl))"

definition DelUser :: "uint64 \<Rightarrow> t_user \<Rightarrow> error option \<times> t_user" where
  "DelUser i tbl = delete_where_id i tbl"

definition GetUser :: "'p codec \<Rightarrow> t_user \<Rightarrow> uint64 \<Rightarrow> error + 'p User" where
  "GetUser cdc tbl i =
     (case getUser cdc tbl i of Inl err \<Rightarrow> Inl err | Inr user \<Rightarrow> Inr user)"

definition GetUserByName :: "'p codec \<Rightarrow> t_user \<Rightarrow> string \<Rightarrow> error + 'p User" where
  "GetUserByName cdc tbl n =
     (case select_by_name tbl n of
        Inl err \<Rightarrow> (if err = ErrNoRows then Inl ErrUserNotFound else Inl err)
      | Inr r \<Rightarrow> decode_row cdc r)"

definition SetPwd :: "uint64 \<Rightarrow> string \<Rightarrow> t_user \<Rightarrow> error option \<times> t_user" where
  "SetPwd i pwd tbl = update_where_id (\<lambda>r. r\<lparr>pwd_col := pwd\<rparr>) i tbl"

definition SetInfo :: "'p codec \<Rightarrow> uint64 \<Rightarrow> 'p User \<Rightarrow> t_user \<Rightarrow> error option \<times> t_user" where
  "SetInfo cdc i user tbl =
     (case marshal_quota cdc (Quota user) of
        Inl err \<Rightarrow> (Some err, tbl)
      | Inr quotaStr \<Rightarrow>
         update_where_id (\<lambda>r. r\<lparr>role_col := Role user, quota_col := quotaStr\<rparr>) i tbl)"

definition SetPreferences :: "'p codec \<Rightarrow> uint64 \<Rightarrow> 'p \<Rightarrow> t_user \<Rightarrow> error option \<times> t_user" where
  "SetPreferences cdc i prefers tbl =
     (case marshal_preferences cdc prefers of
        Inl err \<Rightarrow> (Some err, tbl)
      | Inr preferenceStr \<Rightarrow>
         update_where_id (\<lambda>r. r\<lparr>preference_col := preferenceStr\<rparr>) i tbl)"

text \<open>
  \<open>setUsed\<close>. \<open>+\<close> and \<open>-\<close> on \<open>int64\<close> wrap around; the comparisons are signed, so they
  are made on \<open>sint\<close>.
\<close>

definition setUsed :: "'p codec \<Rightarrow> uint64 \<Rightarrow> bool \<Rightarrow> int64 \<Rightarrow> t_user \<Rightarrow> error option \<times> t_user" where
  "setUsed cdc i incr capacity tbl =
     (case getUser cdc tbl i of
        Inl err \<Rightarrow> (Some err, tbl)
      | Inr gotUser \<Rightarrow>
         if incr \<and> sint (UsedSpace gotUser + capacity) > sint (SpaceLimit (Quota gotUser))
         then (Some ErrReachedLimit, tbl)
         else if incr
         then update_where_id (\<lambda>r. r\<lparr>used_space_col := UsedSpace gotUser + capacity\<rparr>)
                (ID gotUser) tbl
         else if sint (UsedSpace gotUser - capacity) < 0
         then (Some ErrNegtiveUsedSpace, tbl)
         else update_where_id (\<lambda>r. r\<lparr>used_space_col := UsedSpace gotUser - capacity\<rparr>)
                (ID gotUser) tbl)"

definition SetUsed :: "'p codec \<Rightarrow> uint64 \<Rightarrow> bool \<Rightarrow> int64 \<Rightarrow> t_user \<Rightarrow> error option \<times> t_user" where
  "SetUsed cdc i incr capacity tbl = setUsed cdc i incr capacity tbl"

definition ResetUsed :: "uint64 \<Rightarrow> int64 \<Rightarrow> t_user \<Rightarrow> error option \<times> t_user" where
  "ResetUsed i used tbl = update_where_id (\<lambda>r. r\<lparr>used_space_col := used\<rparr>) i tbl"

text \<open>
  \<open>ListUsers\<close>. The query over the whole table yields its rows in order. It reads every
  column but \<open>pwd\<close>, so \<open>Pwd\<close> keeps the zero value of the fresh \<open>db.User\<close>, the empty
  string. The loop stops at the first text that does not decode.
\<close>

fun ListUsers_loop :: "'p codec \<Rightarrow> row list \<Rightarrow> 'p User list \<Rightarrow> error + 'p User list" where
  "ListUsers_loop cdc [] users = Inr users"
| "ListUsers_loop cdc (r # rows) users =
     (case unmarshal_quota cdc (quota_col r) of
        Inl err \<Rightarrow> Inl err
      | Inr q \<Rightarrow>
         (case unmarshal_preferences cdc (preference_col r) of
            Inl err \<Rightarrow> Inl err
          | Inr p \<Rightarrow>
             ListUsers_loop cdc rows
               (users @ [\<lparr>ID = id_col r, Name = name_col r, Pwd = [], Role = role_col r,
                          UsedSpace = used_space_col r, Quota = q, Preferences = p\<rparr>])))"

definition ListUsers :: "'p codec \<Rightarrow> t_user \<Rightarrow> error + 'p User list" where
  "ListUsers cdc tbl = ListUsers_loop cdc tbl []"

text \<open>
  The role operations do not return: they panic with a message. A call either returns a
  value or panics.
\<close>

datatype 'a outcome = Return 'a | Panic string

definition AddRole :: "string \<Rightarrow> error option outcome" where
  "AddRole role = Panic ''not implemented''"

definition DelRole :: "string \<Rightarrow> error option outcome" where
  "DelRole role = Panic ''not implemented''"

definition ListRoles :: "(error + (string \<rightharpoonup> bool)) outcome" where
  "ListRoles = Panic ''not implemented''"

definition returns :: "'a outcome \<Rightarrow> bool" where
  "returns c = (case c of Return _ \<Rightarrow> True | Panic _ \<Rightarrow> False)"

subsection \<open>A concrete codec and table\<close>

text \<open>
  The operations are stated for any codec. To run them on concrete inputs, a small
  lossless text codec: a quota is written as the decimal numeral of its \<open>SpaceLimit\<close>
  read as an unsigned number, preferences are a text written as it is.
\<close>

definition digit_of_char :: "char \<Rightarrow> nat option" where
  "digit_of_char c =
     (let n = (of_char c :: nat) in if 48 \<le> n \<and> n \<le> 57 then Some (n - 48) else None)"

fun parse_decimal :: "string \<Rightarrow> nat \<Rightarrow> nat option" where
  "parse_decimal [] acc = Some acc"
| "parse_decimal (c # cs) acc =
     (case digit_of_char c of None \<Rightarrow> None | Some d \<Rightarrow> parse_decimal cs (10 * acc + d))"

function print_decimal :: "nat \<Rightarrow> string" where
  "print_decimal n =
     (if n < 10 then [char_of (48 + n)]
      else print_decimal (n div 10) @ [char_of (48 + n mod 10)])"
  by pat_completeness auto
termination
  by (relation "measure (\<lambda>n. n)") auto

declare print_decimal.simps [simp del]

definition sample_codec :: "string codec" where
  "sample_codec =
     \<lparr>marshal_quota = (\<lambda>q. Inr (print_decimal (unat (SpaceLimit q)))),
      unmarshal_quota =
        (\<lambda>s. if s = [] then Inl ErrJSON
              else (case parse_decimal s 0 of
                      None \<Rightarrow> Inl ErrJSON
                    | Some n \<Rightarrow> Inr \<lparr>SpaceLimit = of_nat n\<rparr>)),
      marshal_preferences = Inr,
      unmarshal_preferences = Inr\<rparr>"

text \<open>A stored user with the given usage and limit, under id 7.\<close>

definition sample_row :: "int64 \<Rightarrow> string \<Rightarrow> row" where
  "sample_row used limit =
     \<lparr>id_col = 7, name_col = ''alice'', pwd_col = ''s3cret'', role_col = ''user'',
      used_space_col = used, quota_col = limit, preference_col = ''dark''\<rparr>"

definition sample_user :: "int64 \<Rightarrow> int64 \<Rightarrow> string User" where
  "sample_user used limit =
     \<lparr>ID = 7, Name = ''alice'', Pwd = ''s3cret'', Role = ''user'',
      UsedSpace = used, Quota = \<lparr>SpaceLimit = limit\<rparr>, Preferences = ''dark''\<rparr>"

subsection \<open>The JSON text of a quota\<close>

text \<open>
  Modelled from the spec: \<open>db.Quota\<close> is declared outside this file and the spec gives it
  the one field \<open>SpaceLimit\<close>. \<open>json.Marshal\<close> writes such a struct as a JSON object with
  that one member, the number in decimal with a leading \<open>-\<close> when it is negative, and does
  not fail. \<open>json_Unmarshal_Quota\<close> reads the texts of that shape, with a number in the
  \<open>int64\<close> range, and refuses any other text; \<open>json.Unmarshal\<close> accepts further spellings
  of the same object (white space, other members), none of which this file writes.
\<close>

definition print_int :: "int \<Rightarrow> string" where
  "print_int k =
     (if k < 0 then CHR ''-'' # print_decimal (nat (- k)) else print_decimal (nat k))"

definition parse_int :: "string \<Rightarrow> int option" where
  "parse_int s =
     (case s of
        [] \<Rightarrow> None
      | c # cs \<Rightarrow>
          if c = CHR ''-''
          then (if cs = [] then None else map_option (\<lambda>n. - int n) (parse_decimal cs 0))
          else map_option int (parse_decimal s 0))"

text \<open>The opening of the object up to the colon; \<open>CHR 0x22\<close> is the double quote.\<close>

definition SpaceLimit_key :: string where
  "SpaceLimit_key = [CHR ''{'', CHR 0x22] @ ''SpaceLimit'' @ [CHR 0x22, CHR '':'']"

definition json_Marshal_Quota :: "Quota \<Rightarrow> error + string" where
  "json_Marshal_Quota q = Inr (SpaceLimit_key @ print_int (sint (SpaceLimit q)) @ ''}'')"

definition json_Unmarshal_Quota :: "string \<Rightarrow> error + Quota" where
  "json_Unmarshal_Quota s =
     (if take (length SpaceLimit_key) s = SpaceLimit_key \<and> s \<noteq> [] \<and> last s = CHR ''}''
      then (case parse_int (butlast (drop (length SpaceLimit_key) s)) of
              None \<Rightarrow> Inl ErrJSON
            | Some k \<Rightarrow>
                if - (2 ^ 63) \<le> k \<and> k < 2 ^ 63 then Inr \<lparr>SpaceLimit = word_of_int k\<rparr>
                else Inl ErrJSON)
      else Inl ErrJSON)"

text \<open>
  The codec of the store with the quota as above. \<open>db.Preferences\<close> has no declaration to
  model, so its two conversions stay parameters.
\<close>

definition json_codec :: "('p \<Rightarrow> error + string) \<Rightarrow> (string \<Rightarrow> error + 'p) \<Rightarrow> 'p codec" where
  "json_codec Marshal_Preferences Unmarshal_Preferences =
     \<lparr>marshal_quota = json_Marshal_Quota,
      unmarshal_quota = json_Unmarshal_Quota,
      marshal_preferences = Marshal_Preferences,
      unmarshal_preferences = Unmarshal_Preferences\<rparr>"

text \<open>
  For concrete inputs: preferences that are one text, written as a JSON string in which
  the double quote and the backslash (\<open>CHR 0x5C\<close>) are escaped.
\<close>

definition json_escape :: "char \<Rightarrow> string" where
  "json_escape c = (if c = CHR 0x22 \<or> c = CHR 0x5C then [CHR 0x5C, c] else [c])"

fun json_unescape :: "string \<Rightarrow> string option" where
  "json_unescape [] = Some []"
| "json_unescape [c] = (if c = CHR 0x22 \<or> c = CHR 0x5C then None else Some [c])"
| "json_unescape (c # d # cs) =
     (if c = CHR 0x5C then map_option ((#) d) (json_unescape cs)
      else if c = CHR 0x22 then None
      else map_option ((#) c) (json_unescape (d # cs)))"

definition json_Marshal_string :: "string \<Rightarrow> error + string" where
  "json_Marshal_string s = Inr ([CHR 0x22] @ concat (map json_escape s) @ [CHR 0x22])"

definition json_Unmarshal_string :: "string \<Rightarrow> error + string" where
  "json_Unmarshal_string t =
     (if 2 \<le> length t \<and> hd t = CHR 0x22 \<and> last t = CHR 0x22
      then (case json_unescape (butlast (tl t)) of None \<Rightarrow> Inl ErrJSON | Some s \<Rightarrow> Inr s)
      else Inl ErrJSON)"





section \<open>Properties\<close>

subsection \<open>Reading a row back after an update of \<open>used_space\<close>\<close>

lemma find_id_map:
  assumes "\<And>r. id_col (f r) = id_col r"
  shows "find (\<lambda>r. id_col r = j) (map (\<lambda>r. if id_col r = i then f r else r) tbl)
       = map_option (\<lambda>r. if id_col r = i then f r else r) (find (\<lambda>r. id_col r = j) tbl)"
  using assms by (induction tbl) auto

lemma find_id_Some: "find (\<lambda>r. id_col r = j) tbl = Some r \<Longrightarrow> id_col r = j"
  by (induction tbl) (auto split: if_splits)

lemma find_id_None: "i \<notin> set (map id_col tbl) \<Longrightarrow> find (\<lambda>r. id_col r = i) tbl = None"
  by (induction tbl) auto

lemma find_id_append_new:
  "id_col r \<notin> set (map id_col tbl) \<Longrightarrow> find (\<lambda>x. id_col x = id_col r) (tbl @ [r]) = Some r"
  by (induction tbl) auto

lemma getUser_ID: "getUser cdc tbl i = Inr u \<Longrightarrow> ID u = i"
  by (auto simp: getUser_def select_by_id_def decode_row_def dest!: find_id_Some
      split: option.splits sum.splits if_splits)

text \<open>An id under which \<open>getUser\<close> finds a user has passed the conversion.\<close>

lemma getUser_low: "getUser cdc tbl i = Inr u \<Longrightarrow> \<not> high_bit_set i"
  by (auto simp: getUser_def select_by_id_def split: if_splits)

lemma getUser_absent:
  "\<not> high_bit_set i \<Longrightarrow> i \<notin> set (map id_col tbl) \<Longrightarrow> getUser cdc tbl i = Inl ErrUserNotFound"
  by (simp add: getUser_def select_by_id_def find_id_None)

lemma high_bit_set_iff: "high_bit_set i \<longleftrightarrow> \<not> unat i < 2 ^ 63"
  by (simp add: high_bit_set_def not_less)

lemma getUser_from_row:
  "getUser cdc tbl i = Inr g \<Longrightarrow> \<exists>r \<in> set tbl. decode_row cdc r = Inr g"
  by (auto simp: getUser_def select_by_id_def find_Some_iff split: option.splits if_splits)

lemma getUser_update_used_same:
  assumes "getUser cdc tbl i = Inr u"
  shows "getUser cdc (map (\<lambda>r. if id_col r = i then r\<lparr>used_space_col := v\<rparr> else r) tbl) i
       = Inr (u\<lparr>UsedSpace := v\<rparr>)"
  using assms
  by (auto simp: getUser_def select_by_id_def decode_row_def find_id_map dest!: find_id_Some
      split: option.splits sum.splits if_splits)

lemma getUser_update_used_other:
  assumes "j \<noteq> i"
  shows "getUser cdc (map (\<lambda>r. if id_col r = i then r\<lparr>used_space_col := v\<rparr> else r) tbl) j
       = getUser cdc tbl j"
  using assms
  by (auto simp: getUser_def select_by_id_def find_id_map dest!: find_id_Some
      split: option.splits sum.splits if_splits)

subsection \<open>Signed 64-bit sums and differences that stay in range\<close>

lemma sint_add_in_range:
  fixes a b :: int64
  assumes "- (2 ^ 63) \<le> sint a + sint b" "sint a + sint b < 2 ^ 63"
  shows "sint (a + b) = sint a + sint b"
  using assms by (simp add: sint_word_ariths signed_take_bit_int_eq_self)

lemma sint_sub_in_range:
  fixes a b :: int64
  assumes "- (2 ^ 63) \<le> sint a - sint b" "sint a - sint b < 2 ^ 63"
  shows "sint (a - b) = sint a - sint b"
  using assms by (simp add: sint_word_ariths signed_take_bit_int_eq_self)

subsection \<open>\<open>setUsed\<close> on a stored user\<close>

text \<open>
  What \<open>setUsed\<close> does for a user that \<open>getUser\<close> finds, in the arithmetic of the code:
  the sum and the difference are the wrapped 64-bit ones.
\<close>

lemma setUsed_incr:
  assumes "getUser cdc tbl i = Inr u"
  shows "setUsed cdc i True amount tbl =
     (if sint (UsedSpace u + amount) > sint (SpaceLimit (Quota u))
      then (Some ErrReachedLimit, tbl)
      else (None, map (\<lambda>r. if id_col r = i then r\<lparr>used_space_col := UsedSpace u + amount\<rparr> else r) tbl))"
  using assms getUser_ID [OF assms] getUser_low [OF assms]
  by (simp add: setUsed_def update_where_id_def)

lemma setUsed_decr:
  assumes "getUser cdc tbl i = Inr u"
  shows "setUsed cdc i False amount tbl =
     (if sint (UsedSpace u - amount) < 0
      then (Some ErrNegtiveUsedSpace, tbl)
      else (None, map (\<lambda>r. if id_col r = i then r\<lparr>used_space_col := UsedSpace u - amount\<rparr> else r) tbl))"
  using assms getUser_ID [OF assms] getUser_low [OF assms]
  by (simp add: setUsed_def update_where_id_def)

text \<open>
  Claim C1, amended. Let \<open>getUser\<close> find the user \<open>u\<close> under \<open>i\<close>, and let the integer
  \<open>UsedSpace + amount\<close> lie in the signed 64-bit range. If \<open>UsedSpace + amount\<close> exceeds
  \<open>Quota.SpaceLimit\<close>, \<open>SetUsed\<close> with \<open>incr = true\<close> returns \<open>ErrReachedLimit\<close> and the
  table is unchanged. Otherwise it returns no error, the rows with that id differ from
  before in \<open>used_space\<close> only, \<open>getUser\<close> then finds \<open>u\<close> with \<open>UsedSpace\<close> equal to the
  integer sum, and every other id reads as before.
\<close>

theorem SetUsed_increase_in_range:
  assumes stored: "getUser cdc tbl i = Inr u"
    and lo: "- (2 ^ 63) \<le> sint (UsedSpace u) + sint amount"
    and hi: "sint (UsedSpace u) + sint amount < 2 ^ 63"
  shows "(sint (UsedSpace u) + sint amount > sint (SpaceLimit (Quota u)) \<longrightarrow>
            SetUsed cdc i True amount tbl = (Some ErrReachedLimit, tbl)) \<and>
         (sint (UsedSpace u) + sint amount \<le> sint (SpaceLimit (Quota u)) \<longrightarrow>
            (\<exists>tbl' u'. SetUsed cdc i True amount tbl = (None, tbl') \<and>
               tbl' = map (\<lambda>r. if id_col r = i
                                then r\<lparr>used_space_col := UsedSpace u + amount\<rparr> else r) tbl \<and>
               getUser cdc tbl' i = Inr u' \<and>
               u' = u\<lparr>UsedSpace := UsedSpace u + amount\<rparr> \<and>
               sint (UsedSpace u') = sint (UsedSpace u) + sint amount \<and>
               (\<forall>j. j \<noteq> i \<longrightarrow> getUser cdc tbl' j = getUser cdc tbl j)))"
proof -
  have sum: "sint (UsedSpace u + amount) = sint (UsedSpace u) + sint amount"
    using lo hi by (rule sint_add_in_range)
  show ?thesis
    unfolding SetUsed_def setUsed_incr [OF stored] sum
    using sum by (simp add: getUser_update_used_same [OF stored] getUser_update_used_other)
qed

theorem SetUsed_increase_in_range_witness:
  "getUser sample_codec [sample_row 90 ''100''] 7 = Inr (sample_user 90 100) \<and>
   SetUsed sample_codec 7 True 20 [sample_row 90 ''100''] =
     (Some ErrReachedLimit, [sample_row 90 ''100'']) \<and>
   SetUsed sample_codec 7 True 10 [sample_row 90 ''100''] = (None, [sample_row 100 ''100'']) \<and>
   getUser sample_codec [sample_row 100 ''100''] 7 = Inr (sample_user 100 100)"
proof -
  have g: "getUser sample_codec [sample_row 90 ''100''] 7 = Inr (sample_user 90 100)"
    by (simp add: getUser_def select_by_id_def high_bit_set_def decode_row_def sample_codec_def sample_row_def
      sample_user_def digit_of_char_def)
  have u: "UsedSpace (sample_user 90 100) = 90" "SpaceLimit (Quota (sample_user 90 100)) = 100"
    by (simp_all add: sample_user_def)
  have a: "- (2 ^ 63) \<le> sint (UsedSpace (sample_user 90 100)) + sint (20 :: int64)"
          "sint (UsedSpace (sample_user 90 100)) + sint (20 :: int64) < 2 ^ 63"
          "- (2 ^ 63) \<le> sint (UsedSpace (sample_user 90 100)) + sint (10 :: int64)"
          "sint (UsedSpace (sample_user 90 100)) + sint (10 :: int64) < 2 ^ 63"
    by (simp_all add: u)
  show ?thesis
    using g SetUsed_increase_in_range [OF g a(1) a(2)] SetUsed_increase_in_range [OF g a(3) a(4)]
    by (simp add: u sample_row_def sample_user_def)
qed

text \<open>
  Without the range condition the claim fails: the code adds in \<open>int64\<close>, so with
  \<open>UsedSpace = 1\<close>, \<open>SpaceLimit = 100\<close> and \<open>amount = 2^63 - 1\<close> the sum wraps to
  \<open>-2^63\<close>, passes the comparison and is stored, although \<open>1 + (2^63 - 1) > 100\<close>.
\<close>

theorem SetUsed_increase_overflow_counterexample:
  "getUser sample_codec [sample_row 1 ''100''] 7 = Inr (sample_user 1 100) \<and>
   sint (1 :: int64) + sint (9223372036854775807 :: int64) > sint (100 :: int64) \<and>
   SetUsed sample_codec 7 True 9223372036854775807 [sample_row 1 ''100''] =
     (None, [sample_row (- 9223372036854775808) ''100''])"
  by (simp add: SetUsed_def setUsed_def update_where_id_def getUser_def select_by_id_def high_bit_set_def
      decode_row_def sample_codec_def sample_row_def sample_user_def digit_of_char_def)

text \<open>
  Claim C2, amended. Let \<open>getUser\<close> find the user \<open>u\<close> under \<open>i\<close>, and let the integer
  \<open>UsedSpace - amount\<close> lie in the signed 64-bit range. If \<open>UsedSpace - amount\<close> is
  negative, \<open>SetUsed\<close> with \<open>incr = false\<close> returns \<open>ErrNegtiveUsedSpace\<close> and the table is
  unchanged. Otherwise it returns no error, the rows with that id differ from before in
  \<open>used_space\<close> only, \<open>getUser\<close> then finds \<open>u\<close> with \<open>UsedSpace\<close> equal to the integer
  difference, and every other id reads as before.
\<close>

theorem SetUsed_decrease_in_range:
  assumes stored: "getUser cdc tbl i = Inr u"
    and lo: "- (2 ^ 63) \<le> sint (UsedSpace u) - sint amount"
    and hi: "sint (UsedSpace u) - sint amount < 2 ^ 63"
  shows "(sint (UsedSpace u) - sint amount < 0 \<longrightarrow>
            SetUsed cdc i False amount tbl = (Some ErrNegtiveUsedSpace, tbl)) \<and>
         (0 \<le> sint (UsedSpace u) - sint amount \<longrightarrow>
            (\<exists>tbl' u'. SetUsed cdc i False amount tbl = (None, tbl') \<and>
               tbl' = map (\<lambda>r. if id_col r = i
                                then r\<lparr>used_space_col := UsedSpace u - amount\<rparr> else r) tbl \<and>
               getUser cdc tbl' i = Inr u' \<and>
               u' = u\<lparr>UsedSpace := UsedSpace u - amount\<rparr> \<and>
               sint (UsedSpace u') = sint (UsedSpace u) - sint amount \<and>
               (\<forall>j. j \<noteq> i \<longrightarrow> getUser cdc tbl' j = getUser cdc tbl j)))"
proof -
  have diff: "sint (UsedSpace u - amount) = sint (UsedSpace u) - sint amount"
    using lo hi by (rule sint_sub_in_range)
  show ?thesis
    unfolding SetUsed_def setUsed_decr [OF stored] diff
    using diff by (simp add: getUser_update_used_same [OF stored] getUser_update_used_other)
qed

theorem SetUsed_decrease_in_range_witness:
  "getUser sample_codec [sample_row 5 ''100''] 7 = Inr (sample_user 5 100) \<and>
   SetUsed sample_codec 7 False 10 [sample_row 5 ''100''] =
     (Some ErrNegtiveUsedSpace, [sample_row 5 ''100'']) \<and>
   SetUsed sample_codec 7 False 3 [sample_row 5 ''100''] = (None, [sample_row 2 ''100'']) \<and>
   getUser sample_codec [sample_row 2 ''100''] 7 = Inr (sample_user 2 100)"
proof -
  have g: "getUser sample_codec [sample_row 5 ''100''] 7 = Inr (sample_user 5 100)"
    by (simp add: getUser_def select_by_id_def high_bit_set_def decode_row_def sample_codec_def sample_row_def
      sample_user_def digit_of_char_def)
  have u: "UsedSpace (sample_user 5 100) = 5" "SpaceLimit (Quota (sample_user 5 100)) = 100"
    by (simp_all add: sample_user_def)
  have a: "- (2 ^ 63) \<le> sint (UsedSpace (sample_user 5 100)) - sint (10 :: int64)"
          "sint (UsedSpace (sample_user 5 100)) - sint (10 :: int64) < 2 ^ 63"
          "- (2 ^ 63) \<le> sint (UsedSpace (sample_user 5 100)) - sint (3 :: int64)"
          "sint (UsedSpace (sample_user 5 100)) - sint (3 :: int64) < 2 ^ 63"
    by (simp_all add: u)
  show ?thesis
    using g SetUsed_decrease_in_range [OF g a(1) a(2)] SetUsed_decrease_in_range [OF g a(3) a(4)]
    by (simp add: u sample_row_def sample_user_def)
qed

text \<open>
  Without the range condition the claim fails: with \<open>UsedSpace = 0\<close> and
  \<open>amount = -2^63\<close> the integer difference is \<open>2^63\<close>, not negative, but the \<open>int64\<close>
  difference wraps to \<open>-2^63\<close> and the call is refused.
\<close>

theorem SetUsed_decrease_overflow_counterexample:
  "getUser sample_codec [sample_row 0 ''100''] 7 = Inr (sample_user 0 100) \<and>
   0 \<le> sint (0 :: int64) - sint (- 9223372036854775808 :: int64) \<and>
   SetUsed sample_codec 7 False (- 9223372036854775808) [sample_row 0 ''100''] =
     (Some ErrNegtiveUsedSpace, [sample_row 0 ''100''])"
  by (simp add: SetUsed_def setUsed_def update_where_id_def getUser_def select_by_id_def high_bit_set_def
      decode_row_def sample_codec_def sample_row_def sample_user_def digit_of_char_def)

text \<open>
  Claim C3, amended. Let the stored user satisfy \<open>0 \<le> UsedSpace \<le> Quota.SpaceLimit\<close>. Every
  \<open>SetUsed\<close> that returns no error, in either direction, with an amount that is not
  negative and, when increasing, with \<open>UsedSpace + amount\<close> in the signed 64-bit range,
  leaves a stored user with the same quota that again satisfies
  \<open>0 \<le> UsedSpace \<le> Quota.SpaceLimit\<close>.
\<close>

theorem SetUsed_keeps_bounds:
  assumes stored: "getUser cdc tbl i = Inr u"
    and inv: "0 \<le> sint (UsedSpace u)" "sint (UsedSpace u) \<le> sint (SpaceLimit (Quota u))"
    and amount: "0 \<le> sint amount"
    and no_overflow: "incr \<longrightarrow> sint (UsedSpace u) + sint amount < 2 ^ 63"
    and committed: "SetUsed cdc i incr amount tbl = (None, tbl')"
  shows "\<exists>u'. getUser cdc tbl' i = Inr u' \<and> Quota u' = Quota u \<and>
              0 \<le> sint (UsedSpace u') \<and> sint (UsedSpace u') \<le> sint (SpaceLimit (Quota u'))"
proof (cases incr)
  case True
  have sum: "sint (UsedSpace u + amount) = sint (UsedSpace u) + sint amount"
    using inv(1) amount no_overflow True by (intro sint_add_in_range) simp_all
  from committed True have ok: "\<not> sint (SpaceLimit (Quota u)) < sint (UsedSpace u + amount)"
    and tbl': "tbl' = map (\<lambda>r. if id_col r = i
                                then r\<lparr>used_space_col := UsedSpace u + amount\<rparr> else r) tbl"
    by (auto simp: SetUsed_def setUsed_incr [OF stored] split: if_splits)
  show ?thesis
    using ok sum inv(1) amount
    by (simp add: tbl' getUser_update_used_same [OF stored])
next
  case False
  have up: "sint (UsedSpace u) < 2 ^ 63"
    using sint_lt [of "UsedSpace u"] by simp
  have diff: "sint (UsedSpace u - amount) = sint (UsedSpace u) - sint amount"
    using inv(1) amount up sint_lt [of amount] by (intro sint_sub_in_range) simp_all
  from committed False have ok: "\<not> sint (UsedSpace u - amount) < 0"
    and tbl': "tbl' = map (\<lambda>r. if id_col r = i
                                then r\<lparr>used_space_col := UsedSpace u - amount\<rparr> else r) tbl"
    by (auto simp: SetUsed_def setUsed_decr [OF stored] split: if_splits)
  show ?thesis
    using ok diff inv(2) amount
    by (simp add: tbl' getUser_update_used_same [OF stored])
qed

theorem SetUsed_keeps_bounds_witness:
  "SetUsed sample_codec 7 True 10 [sample_row 90 ''100''] = (None, [sample_row 100 ''100'']) \<and>
   (\<exists>u'. getUser sample_codec [sample_row 100 ''100''] 7 = Inr u' \<and>
         Quota u' = \<lparr>SpaceLimit = 100\<rparr> \<and>
         0 \<le> sint (UsedSpace u') \<and> sint (UsedSpace u') \<le> sint (SpaceLimit (Quota u'))) \<and>
   SetUsed sample_codec 7 False 90 [sample_row 90 ''100''] = (None, [sample_row 0 ''100'']) \<and>
   (\<exists>u'. getUser sample_codec [sample_row 0 ''100''] 7 = Inr u' \<and>
         Quota u' = \<lparr>SpaceLimit = 100\<rparr> \<and>
         0 \<le> sint (UsedSpace u') \<and> sint (UsedSpace u') \<le> sint (SpaceLimit (Quota u')))"
proof -
  have g: "getUser sample_codec [sample_row 90 ''100''] 7 = Inr (sample_user 90 100)"
    by (simp add: getUser_def select_by_id_def high_bit_set_def decode_row_def sample_codec_def
      sample_row_def sample_user_def digit_of_char_def)
  have u: "UsedSpace (sample_user 90 100) = 90" "Quota (sample_user 90 100) = \<lparr>SpaceLimit = 100\<rparr>"
    by (simp_all add: sample_user_def)
  have h: "0 \<le> sint (UsedSpace (sample_user 90 100))"
          "sint (UsedSpace (sample_user 90 100)) \<le> sint (SpaceLimit (Quota (sample_user 90 100)))"
    by (simp_all add: u)
  have up: "0 \<le> sint (10 :: int64)"
           "True \<longrightarrow> sint (UsedSpace (sample_user 90 100)) + sint (10 :: int64) < 2 ^ 63"
    by (simp_all add: u)
  have down: "0 \<le> sint (90 :: int64)"
             "False \<longrightarrow> sint (UsedSpace (sample_user 90 100)) + sint (90 :: int64) < 2 ^ 63"
    by simp_all
  have c: "SetUsed sample_codec 7 True 10 [sample_row 90 ''100''] = (None, [sample_row 100 ''100''])"
    by (simp add: SetUsed_def setUsed_def update_where_id_def getUser_def select_by_id_def
      high_bit_set_def decode_row_def sample_codec_def sample_row_def digit_of_char_def)
  have d: "SetUsed sample_codec 7 False 90 [sample_row 90 ''100''] = (None, [sample_row 0 ''100''])"
    by (simp add: SetUsed_def setUsed_def update_where_id_def getUser_def select_by_id_def
      high_bit_set_def decode_row_def sample_codec_def sample_row_def digit_of_char_def)
  show ?thesis
    using c d SetUsed_keeps_bounds [OF g h up c] SetUsed_keeps_bounds [OF g h down d]
    by (simp add: u)
qed

text \<open>
  For any amount the claim fails: \<open>setUsed\<close> checks the upper bound only when increasing
  and the lower bound only when decreasing, so an increase by \<open>-10\<close> of \<open>UsedSpace = 5\<close>
  is accepted and stores \<open>-5\<close>.
\<close>

theorem SetUsed_negative_amount_counterexample:
  "getUser sample_codec [sample_row 5 ''100''] 7 = Inr (sample_user 5 100) \<and>
   0 \<le> sint (5 :: int64) \<and> sint (5 :: int64) \<le> sint (100 :: int64) \<and>
   SetUsed sample_codec 7 True (- 10) [sample_row 5 ''100''] =
     (None, [sample_row (- 5) ''100'']) \<and>
   getUser sample_codec [sample_row (- 5) ''100''] 7 = Inr (sample_user (- 5) 100) \<and>
   sint (- 5 :: int64) < 0"
  by (simp add: SetUsed_def setUsed_def update_where_id_def getUser_def select_by_id_def high_bit_set_def
      decode_row_def sample_codec_def sample_row_def sample_user_def digit_of_char_def)

text \<open>
  Claim C4. For every id \<open>i\<close> that passes the conversion and every value \<open>v\<close>,
  \<open>ResetUsed\<close> returns no error and rewrites \<open>used_space\<close> to \<open>v\<close> in the rows with id
  \<open>i\<close>, whatever they held and whatever the quota is; no other column and no other row
  changes. Read back: a user that \<open>getUser\<close> found under \<open>i\<close> (such an id has passed the
  conversion) is found again with \<open>UsedSpace = v\<close> and all other fields as before, and
  every other id reads as before.
\<close>

theorem ResetUsed_overwrites:
  "(unat i < 2 ^ 63 \<longrightarrow>
      ResetUsed i v tbl =
        (None, map (\<lambda>r. if id_col r = i then r\<lparr>used_space_col := v\<rparr> else r) tbl)) \<and>
   (\<forall>u. getUser cdc tbl i = Inr u \<longrightarrow>
        ResetUsed i v tbl =
          (None, map (\<lambda>r. if id_col r = i then r\<lparr>used_space_col := v\<rparr> else r) tbl) \<and>
        getUser cdc (snd (ResetUsed i v tbl)) i = Inr (u\<lparr>UsedSpace := v\<rparr>)) \<and>
   (\<forall>j. j \<noteq> i \<longrightarrow> getUser cdc (snd (ResetUsed i v tbl)) j = getUser cdc tbl j)"
proof (intro conjI allI impI)
  assume "unat i < 2 ^ 63"
  then show "ResetUsed i v tbl =
      (None, map (\<lambda>r. if id_col r = i then r\<lparr>used_space_col := v\<rparr> else r) tbl)"
    by (simp add: ResetUsed_def update_where_id_def high_bit_set_iff)
next
  fix u assume g: "getUser cdc tbl i = Inr u"
  show r: "ResetUsed i v tbl =
      (None, map (\<lambda>r. if id_col r = i then r\<lparr>used_space_col := v\<rparr> else r) tbl)"
    using getUser_low [OF g] by (simp add: ResetUsed_def update_where_id_def)
  show "getUser cdc (snd (ResetUsed i v tbl)) i = Inr (u\<lparr>UsedSpace := v\<rparr>)"
    by (simp add: r getUser_update_used_same [OF g])
next
  fix j assume "j \<noteq> i"
  then show "getUser cdc (snd (ResetUsed i v tbl)) j = getUser cdc tbl j"
    by (simp add: ResetUsed_def update_where_id_def getUser_update_used_other)
qed

theorem ResetUsed_overwrites_witness:
  "unat (7 :: uint64) < 2 ^ 63 \<and>
   getUser sample_codec [sample_row 3 ''10''] 7 = Inr (sample_user 3 10) \<and>
   ResetUsed 7 42 [sample_row 3 ''10''] = (None, [sample_row 42 ''10'']) \<and>
   getUser sample_codec [sample_row 42 ''10''] 7 = Inr (sample_user 42 10) \<and>
   getUser sample_codec [sample_row 42 ''10''] 8 = getUser sample_codec [sample_row 3 ''10''] 8"
proof -
  note t = ResetUsed_overwrites [of 7 42 "[sample_row 3 ''10'']" sample_codec]
  have l: "unat (7 :: uint64) < 2 ^ 63"
    by simp
  have g: "getUser sample_codec [sample_row 3 ''10''] 7 = Inr (sample_user 3 10)"
    by (simp add: getUser_def select_by_id_def high_bit_set_def decode_row_def sample_codec_def
      sample_row_def sample_user_def digit_of_char_def)
  have e: "ResetUsed 7 42 [sample_row 3 ''10''] = (None, [sample_row 42 ''10''])"
    using t [THEN conjunct1, rule_format, OF l] by (simp add: sample_row_def)
  have s: "(sample_user 3 10 :: string User)\<lparr>UsedSpace := 42\<rparr> = sample_user 42 10"
    by (simp add: sample_user_def)
  have t1: "getUser sample_codec (snd (ResetUsed 7 42 [sample_row 3 ''10''])) 7
            = Inr (sample_user 42 10)"
    using t [THEN conjunct2, THEN conjunct1, rule_format, OF g, THEN conjunct2]
    by (simp only: s)
  have t2: "getUser sample_codec (snd (ResetUsed 7 42 [sample_row 3 ''10''])) 8
            = getUser sample_codec [sample_row 3 ''10''] 8"
    using t [THEN conjunct2, THEN conjunct2, rule_format, of 8] by simp
  show ?thesis
    using l g t1 t2 by (simp add: e)
qed

text \<open>
  An id with the high bit set never reaches the table: \<open>ResetUsed\<close> returns the
  conversion error and nothing is written.
\<close>

lemma ResetUsed_high_bit:
  "2 ^ 63 \<le> unat i \<Longrightarrow> ResetUsed i v tbl = (Some ErrConvertArg, tbl)"
  by (simp add: ResetUsed_def update_where_id_def high_bit_set_def)

text \<open>
  Claim C5. The claim is that \<open>AddUser\<close> refuses a malformed record. \<open>AddUser\<close> makes no
  call to \<open>db.CheckUser\<close> (only \<open>setUser\<close> does): a record whose name, password and role
  are all empty is inserted into the empty table and no error is returned.
\<close>

theorem AddUser_inserts_malformed:
  "AddUser sample_codec
     \<lparr>ID = 1, Name = [], Pwd = [], Role = [], UsedSpace = 0,
      Quota = \<lparr>SpaceLimit = 0\<rparr>, Preferences = []\<rparr> [] =
   (None, [\<lparr>id_col = 1, name_col = [], pwd_col = [], role_col = [], used_space_col = 0,
            quota_col = ''0'', preference_col = []\<rparr>])"
proof -
  have d: "print_decimal 0 = ''0''"
    by code_simp
  show ?thesis
    by (simp add: AddUser_def insert_row_def high_bit_set_def sample_codec_def d)
qed

text \<open>
  Claim C6, amended. For every argument, \<open>AddRole\<close>, \<open>DelRole\<close> and \<open>ListRoles\<close> panic with
  the message \<open>not implemented\<close>; none of them returns a value, so none returns an error.
\<close>

theorem role_operations_panic:
  "AddRole role = Panic ''not implemented'' \<and>
   DelRole role = Panic ''not implemented'' \<and>
   ListRoles = Panic ''not implemented''"
  by (simp add: AddRole_def DelRole_def ListRoles_def)

text \<open>The claim as stated, that each of them returns an error value, fails at every call.\<close>

theorem role_operations_counterexample:
  "\<not> returns (AddRole ''admin'') \<and> \<not> returns (DelRole ''admin'') \<and> \<not> returns ListRoles"
  by (simp add: returns_def AddRole_def DelRole_def ListRoles_def)

text \<open>
  Claim C7, amended. For every id below \<open>2^63\<close> that no row of the table carries,
  \<open>GetUser\<close> returns \<open>ErrUserNotFound\<close>, and \<open>SetUsed\<close>, in either direction and for any
  amount, returns \<open>ErrUserNotFound\<close> and leaves the table unchanged.
\<close>

theorem absent_id_NotFound:
  assumes "unat i < 2 ^ 63" and "i \<notin> set (map id_col tbl)"
  shows "GetUser cdc tbl i = Inl ErrUserNotFound \<and>
         SetUsed cdc i incr amount tbl = (Some ErrUserNotFound, tbl)"
proof -
  have "\<not> high_bit_set i"
    using assms(1) by (simp add: high_bit_set_iff)
  then have "getUser cdc tbl i = Inl ErrUserNotFound"
    using assms(2) by (rule getUser_absent)
  then show ?thesis
    by (simp add: GetUser_def SetUsed_def setUsed_def)
qed

theorem absent_id_NotFound_witness:
  "GetUser sample_codec [sample_row 5 ''100''] 8 = Inl ErrUserNotFound \<and>
   SetUsed sample_codec 8 True 1 [sample_row 5 ''100''] =
     (Some ErrUserNotFound, [sample_row 5 ''100''])"
proof -
  have l: "unat (8 :: uint64) < 2 ^ 63"
    by simp
  have a: "(8 :: uint64) \<notin> set (map id_col [sample_row 5 ''100''])"
    by (simp add: sample_row_def)
  show ?thesis
    using absent_id_NotFound [OF l a, of sample_codec True 1] by simp
qed

text \<open>
  For every id the claim fails: \<open>database/sql\<close> refuses the id \<open>2^63\<close> before the query
  runs, and \<open>getUser\<close> returns every error other than \<open>sql.ErrNoRows\<close> as it is. The id
  is in no row, yet neither call returns \<open>ErrUserNotFound\<close>.
\<close>

theorem absent_id_high_bit_counterexample:
  "(9223372036854775808 :: uint64) \<notin> set (map id_col [sample_row 5 ''100'']) \<and>
   GetUser sample_codec [sample_row 5 ''100''] 9223372036854775808 = Inl ErrConvertArg \<and>
   SetUsed sample_codec 9223372036854775808 True 1 [sample_row 5 ''100''] =
     (Some ErrConvertArg, [sample_row 5 ''100''])"
  by (simp add: GetUser_def SetUsed_def setUsed_def getUser_def select_by_id_def
      high_bit_set_def sample_row_def)

subsection \<open>The JSON text of a quota is read back as written\<close>

lemma parse_decimal_append:
  "parse_decimal (xs @ ys) acc =
     (case parse_decimal xs acc of None \<Rightarrow> None | Some a \<Rightarrow> parse_decimal ys a)"
  by (induction xs arbitrary: acc) (auto split: option.splits)

lemma digit_of_char_digit: "d < 10 \<Longrightarrow> digit_of_char (char_of (48 + d)) = Some d"
  by (simp add: digit_of_char_def)

lemma parse_print_decimal: "parse_decimal (print_decimal n) 0 = Some n"
proof (induction n rule: print_decimal.induct)
  case (1 n)
  show ?case
  proof (cases "n < 10")
    case True
    then show ?thesis
      by (subst print_decimal.simps) (simp add: digit_of_char_digit)
  next
    case False
    with 1 have ih: "parse_decimal (print_decimal (n div 10)) 0 = Some (n div 10)"
      by simp
    have d: "digit_of_char (char_of (48 + n mod 10)) = Some (n mod 10)"
      by (rule digit_of_char_digit) simp
    show ?thesis
      using False
      by (subst print_decimal.simps) (simp add: parse_decimal_append ih d)
  qed
qed

lemma print_decimal_digits: "c \<in> set (print_decimal n) \<Longrightarrow> digit_of_char c \<noteq> None"
proof (induction n rule: print_decimal.induct)
  case (1 n)
  show ?case
  proof (cases "n < 10")
    case True
    with "1.prems" show ?thesis
      by (subst (asm) print_decimal.simps) (simp add: digit_of_char_digit)
  next
    case False
    have d: "digit_of_char (char_of (48 + n mod 10)) = Some (n mod 10)"
      by (rule digit_of_char_digit) simp
    from "1.prems" False
    have "c \<in> set (print_decimal (n div 10)) \<or> c = char_of (48 + n mod 10)"
      by (subst (asm) print_decimal.simps) auto
    with 1 False d show ?thesis by auto
  qed
qed

lemma print_decimal_not_Nil: "print_decimal n \<noteq> []"
  by (subst print_decimal.simps) simp

lemma print_decimal_no_minus: "print_decimal n = c # cs \<Longrightarrow> c \<noteq> CHR ''-''"
proof
  assume p: "print_decimal n = c # cs" and m: "c = CHR ''-''"
  from p have "c \<in> set (print_decimal n)" by simp
  then have "digit_of_char c \<noteq> None" by (rule print_decimal_digits)
  with m show False by (simp add: digit_of_char_def)
qed

lemma parse_print_int: "parse_int (print_int k) = Some k"
proof (cases "k < 0")
  case True
  then show ?thesis
    by (simp add: parse_int_def print_int_def print_decimal_not_Nil parse_print_decimal)
next
  case False
  obtain c cs where p: "print_decimal (nat k) = c # cs"
    using print_decimal_not_Nil [of "nat k"] by (cases "print_decimal (nat k)") auto
  have "c \<noteq> CHR ''-''" using p by (rule print_decimal_no_minus)
  moreover have "parse_decimal (c # cs) 0 = Some (nat k)"
    using parse_print_decimal [of "nat k"] by (simp only: p)
  ultimately show ?thesis
    using False by (simp add: parse_int_def print_int_def p del: parse_decimal.simps)
qed

text \<open>Every quota, of any limit in \<open>int64\<close>, is written and read back as the same quota.\<close>

lemma json_Quota_roundtrip:
  "\<exists>s. json_Marshal_Quota q = Inr s \<and> json_Unmarshal_Quota s = Inr q"
proof -
  let ?s = "SpaceLimit_key @ print_int (sint (SpaceLimit q)) @ ''}''"
  have lo: "- (2 ^ 63) \<le> sint (SpaceLimit q)"
    using sint_ge [of "SpaceLimit q"] by simp
  have hi: "sint (SpaceLimit q) < 2 ^ 63"
    using sint_lt [of "SpaceLimit q"] by simp
  have "json_Unmarshal_Quota ?s = Inr q"
    unfolding json_Unmarshal_Quota_def
    using lo hi by (simp add: parse_print_int butlast_append)
  then show ?thesis
    by (simp add: json_Marshal_Quota_def)
qed

subsection \<open>Adding a user and reading it back\<close>

text \<open>For any codec that reads back what it wrote for the two sub-records of the user.\<close>

lemma AddUser_GetUser_any_codec:
  fixes u :: "'p User"
  assumes low_id: "\<not> high_bit_set (ID u)"
    and new_id: "ID u \<notin> set (map id_col tbl)"
    and new_name: "Name u \<notin> set (map name_col tbl)"
    and enc_q: "marshal_quota cdc (Quota u) = Inr qs"
    and dec_q: "unmarshal_quota cdc qs = Inr (Quota u)"
    and enc_p: "marshal_preferences cdc (Preferences u) = Inr ps"
    and dec_p: "unmarshal_preferences cdc ps = Inr (Preferences u)"
  shows "AddUser cdc u tbl =
           (None, tbl @ [\<lparr>id_col = ID u, name_col = Name u, pwd_col = Pwd u, role_col = Role u,
                           used_space_col = UsedSpace u, quota_col = qs,
                           preference_col = ps\<rparr>]) \<and>
         GetUser cdc (snd (AddUser cdc u tbl)) (ID u) = Inr u"
proof -
  let ?r = "\<lparr>id_col = ID u, name_col = Name u, pwd_col = Pwd u, role_col = Role u,
             used_space_col = UsedSpace u, quota_col = qs, preference_col = ps\<rparr>"
  have add: "AddUser cdc u tbl = (None, tbl @ [?r])"
    using low_id new_id new_name by (simp add: AddUser_def enc_q enc_p insert_row_def)
  have "id_col ?r \<notin> set (map id_col tbl)"
    using new_id by simp
  then have "find (\<lambda>x. id_col x = id_col ?r) (tbl @ [?r]) = Some ?r"
    by (rule find_id_append_new)
  then have sel: "select_by_id (tbl @ [?r]) (ID u) = Inr ?r"
    using low_id by (simp add: select_by_id_def)
  have "decode_row cdc ?r = Inr u"
    by (simp add: decode_row_def dec_q dec_p)
  then have "GetUser cdc (tbl @ [?r]) (ID u) = Inr u"
    by (simp add: GetUser_def getUser_def sel)
  with add show ?thesis by simp
qed




text \<open>
  The condition on the preferences can be met at every value: preferences that are one
  text, written as a JSON string, are always read back as written, so for them the round
  trip needs the bound on the id and the two fresh keys only.
\<close>

lemma json_unescape_plain:
  "c \<noteq> CHR 0x22 \<Longrightarrow> c \<noteq> CHR 0x5C \<Longrightarrow>
     json_unescape (c # xs) = map_option ((#) c) (json_unescape xs)"
  by (cases xs) simp_all

lemma json_unescape_escape: "json_unescape (concat (map json_escape s)) = Some s"
proof (induction s)
  case Nil
  then show ?case by simp
next
  case (Cons c s)
  show ?case
  proof (cases "c = CHR 0x22 \<or> c = CHR 0x5C")
    case True
    then show ?thesis
      using Cons.IH by (auto simp: json_escape_def)
  next
    case False
    then show ?thesis
      using Cons.IH by (simp add: json_escape_def json_unescape_plain)
  qed
qed

lemma json_string_roundtrip:
  "\<exists>t. json_Marshal_string s = Inr t \<and> json_Unmarshal_string t = Inr s"
  by (simp add: json_Marshal_string_def json_Unmarshal_string_def json_unescape_escape
      butlast_append)

lemma AddUser_GetUser_text_preferences:
  fixes u :: "string User"
  assumes "unat (ID u) < 2 ^ 63"
    and "ID u \<notin> set (map id_col tbl)"
    and "Name u \<notin> set (map name_col tbl)"
  shows "fst (AddUser (json_codec json_Marshal_string json_Unmarshal_string) u tbl) = None \<and>
         GetUser (json_codec json_Marshal_string json_Unmarshal_string)
           (snd (AddUser (json_codec json_Marshal_string json_Unmarshal_string) u tbl)) (ID u)
         = Inr u"
proof -
  let ?cdc = "json_codec json_Marshal_string json_Unmarshal_string"
  obtain qs where q: "json_Marshal_Quota (Quota u) = Inr qs"
    "json_Unmarshal_Quota qs = Inr (Quota u)"
    using json_Quota_roundtrip [of "Quota u"] by blast
  obtain ps where p: "json_Marshal_string (Preferences u) = Inr ps"
    "json_Unmarshal_string ps = Inr (Preferences u)"
    using json_string_roundtrip [of "Preferences u"] by blast
  have low: "\<not> high_bit_set (ID u)"
    using assms(1) by (simp add: high_bit_set_iff)
  have "AddUser ?cdc u tbl =
           (None, tbl @ [\<lparr>id_col = ID u, name_col = Name u, pwd_col = Pwd u, role_col = Role u,
                           used_space_col = UsedSpace u, quota_col = qs,
                           preference_col = ps\<rparr>]) \<and>
        GetUser ?cdc (snd (AddUser ?cdc u tbl)) (ID u) = Inr u"
    using low assms(2) assms(3)
    by (rule AddUser_GetUser_any_codec) (simp_all add: json_codec_def q p)
  then show ?thesis by auto
qed

subsection \<open>The listing loop\<close>

lemma ListUsers_loop_result:
  "ListUsers_loop cdc rows acc = Inr us \<Longrightarrow>
     \<exists>ds. us = acc @ ds \<and> (\<forall>u \<in> set ds. Pwd u = []) \<and>
          (\<forall>r \<in> set rows. \<forall>g. decode_row cdc r = Inr g \<longrightarrow> g\<lparr>Pwd := []\<rparr> \<in> set ds)"
proof (induction rows arbitrary: acc)
  case Nil
  then show ?case by simp
next
  case (Cons r rows)
  from Cons.prems obtain q p where q: "unmarshal_quota cdc (quota_col r) = Inr q"
    and p: "unmarshal_preferences cdc (preference_col r) = Inr p"
    and rest: "ListUsers_loop cdc rows
                 (acc @ [\<lparr>ID = id_col r, Name = name_col r, Pwd = [], Role = role_col r,
                          UsedSpace = used_space_col r, Quota = q, Preferences = p\<rparr>]) = Inr us"
    by (auto split: sum.splits)
  let ?u = "\<lparr>ID = id_col r, Name = name_col r, Pwd = [], Role = role_col r,
             UsedSpace = used_space_col r, Quota = q, Preferences = p\<rparr>"
  from Cons.IH [OF rest] obtain ds where ds: "us = (acc @ [?u]) @ ds"
    "\<forall>u \<in> set ds. Pwd u = []"
    "\<forall>r \<in> set rows. \<forall>g. decode_row cdc r = Inr g \<longrightarrow> g\<lparr>Pwd := []\<rparr> \<in> set ds"
    by blast
  have head: "\<forall>g. decode_row cdc r = Inr g \<longrightarrow> g\<lparr>Pwd := []\<rparr> = ?u"
    by (auto simp: decode_row_def q p)
  show ?case
  proof (intro exI conjI)
    show "us = acc @ (?u # ds)" using ds(1) by simp
    show "\<forall>u \<in> set (?u # ds). Pwd u = []" using ds(2) by simp
    show "\<forall>r' \<in> set (r # rows). \<forall>g. decode_row cdc r' = Inr g \<longrightarrow> g\<lparr>Pwd := []\<rparr> \<in> set (?u # ds)"
      using ds(3) head by auto
  qed
qed

text \<open>
  Claim C10. Every record of a successful \<open>ListUsers\<close> has an empty \<open>Pwd\<close>. For every
  user \<open>g\<close> that \<open>GetUser\<close> returns, the listing holds \<open>g\<close> with its \<open>Pwd\<close> emptied; when the
  stored password is not empty, \<open>g\<close> itself is not in the listing, so the two records
  differ.
\<close>

theorem ListUsers_Pwd_empty:
  assumes "ListUsers cdc tbl = Inr us"
  shows "(\<forall>u \<in> set us. Pwd u = []) \<and>
         (\<forall>i g. GetUser cdc tbl i = Inr g \<longrightarrow>
            g\<lparr>Pwd := []\<rparr> \<in> set us \<and> (Pwd g \<noteq> [] \<longrightarrow> g \<notin> set us))"
proof -
  from assms obtain ds where ds: "us = [] @ ds" "\<forall>u \<in> set ds. Pwd u = []"
    "\<forall>r \<in> set tbl. \<forall>g. decode_row cdc r = Inr g \<longrightarrow> g\<lparr>Pwd := []\<rparr> \<in> set ds"
    unfolding ListUsers_def by (blast dest: ListUsers_loop_result)
  have all: "\<forall>u \<in> set us. Pwd u = []"
    using ds by simp
  have each: "\<forall>i g. GetUser cdc tbl i = Inr g \<longrightarrow>
                 g\<lparr>Pwd := []\<rparr> \<in> set us \<and> (Pwd g \<noteq> [] \<longrightarrow> g \<notin> set us)"
  proof (intro allI impI)
    fix i g
    assume "GetUser cdc tbl i = Inr g"
    then have "getUser cdc tbl i = Inr g"
      by (simp add: GetUser_def split: sum.splits)
    then obtain r where "r \<in> set tbl" "decode_row cdc r = Inr g"
      by (blast dest: getUser_from_row)
    with ds have "g\<lparr>Pwd := []\<rparr> \<in> set us" by simp
    with all show "g\<lparr>Pwd := []\<rparr> \<in> set us \<and> (Pwd g \<noteq> [] \<longrightarrow> g \<notin> set us)" by blast
  qed
  with all show ?thesis by blast
qed

theorem ListUsers_Pwd_empty_witness:
  "ListUsers sample_codec [sample_row 5 ''100''] = Inr [(sample_user 5 100)\<lparr>Pwd := []\<rparr>] \<and>
   GetUser sample_codec [sample_row 5 ''100''] 7 = Inr (sample_user 5 100) \<and>
   Pwd (sample_user 5 100 :: string User) = ''s3cret'' \<and>
   (sample_user 5 100 :: string User) \<notin> set [(sample_user 5 100)\<lparr>Pwd := []\<rparr>]"
proof -
  have l: "ListUsers sample_codec [sample_row 5 ''100''] = Inr [(sample_user 5 100)\<lparr>Pwd := []\<rparr>]"
    by (simp add: ListUsers_def sample_codec_def sample_row_def sample_user_def digit_of_char_def)
  have g: "GetUser sample_codec [sample_row 5 ''100''] 7 = Inr (sample_user 5 100)"
    by (simp add: GetUser_def getUser_def select_by_id_def high_bit_set_def decode_row_def sample_codec_def
        sample_row_def sample_user_def digit_of_char_def)
  have p: "Pwd (sample_user 5 100 :: string User) = ''s3cret''"
    by (simp add: sample_user_def)
  show ?thesis
    using l g p ListUsers_Pwd_empty [OF l, THEN conjunct2, rule_format, OF g]
    by simp
qed

end
